theory Spec2Isabelle
  imports Main "HOL-Library.Word"
begin

section \<open>The bridge between an in-process message stream and RabbitMQ (cmd/rabbitmq.go)\<close>

subsection \<open>Message and the message builder\<close>

text \<open>
  \<^verbatim>\<open>type Message struct { Body []byte; RoutingKey string; Headers map[string]interface{} }\<close>

  The values of the header map have Go type \<^verbatim>\<open>interface{}\<close>; they are kept abstract as
  the type parameter \<open>'v\<close>. The builder stores the attribute strings themselves, so its
  result is a \<open>string Message\<close>; Publish and Consume pass header values through untouched.
\<close>

record 'v Message =
  Body :: "8 word list"
  RoutingKey :: string
  Headers :: "string \<rightharpoonup> 'v"

text \<open>
  The loop \<^verbatim>\<open>for k, v := range attrs { switch k { ... } }\<close> of NewMessageFromAttrs.
  A Go map is enumerated in an unspecified order, each key once: the argument is any such
  enumeration of the entries of \<^verbatim>\<open>attrs\<close>. The state of the loop is the pair of the
  local variables \<^verbatim>\<open>headers\<close> and \<^verbatim>\<open>key\<close>. The variable \<^verbatim>\<open>routingKey\<close> that the loop
  reads is a package-level variable declared in another file of the package; it is a
  parameter here.
\<close>

fun attrs_loop ::
  "string \<Rightarrow> (string \<times> string) list \<Rightarrow> (string \<rightharpoonup> string) \<times> string
     \<Rightarrow> (string \<rightharpoonup> string) \<times> string"
where
  "attrs_loop routingKey [] (headers, key) = (headers, key)"
| "attrs_loop routingKey ((k, v) # rest) (headers, key) =
     (if k = ''amqp.routingKey''
      then attrs_loop routingKey rest (headers, if routingKey \<noteq> '''' then routingKey else v)
      else attrs_loop routingKey rest (headers(k \<mapsto> v), key))"

text \<open>
  \<^verbatim>\<open>func NewMessageFromAttrs(bytes []byte, attrs map[string]string) *Message\<close>:
  \<^verbatim>\<open>headers\<close> starts as the empty map and \<^verbatim>\<open>key\<close> as the empty string (the zero value
  of \<^verbatim>\<open>var key string\<close>).
\<close>

definition NewMessageFromAttrs ::
  "string \<Rightarrow> 8 word list \<Rightarrow> (string \<times> string) list \<Rightarrow> string Message"
where
  "NewMessageFromAttrs routingKey bytes attrs =
     (let (headers, key) = attrs_loop routingKey attrs (Map.empty, '''')
      in \<lparr>Body = bytes, RoutingKey = key, Headers = headers\<rparr>)"

subsection \<open>The broker client library as an environment\<close>

text \<open>
  The package \<^verbatim>\<open>github.com/streadway/amqp\<close> is an external collaborator. What the
  program does to the outside world is recorded as a trace of events, in program order:
  the calls into the library with their arguments (the \<^verbatim>\<open>arguments\<close> table, \<^verbatim>\<open>nil\<close> at
  every call site, is left out), the sends on and the closing of the caller's output
  channel, and the log lines. What the library answers is a parameter: a record of
  functions from the trace so far and the arguments of the call to the returned values.
  A Go \<^verbatim>\<open>error\<close> is its message; \<^verbatim>\<open>nil\<close> is \<open>None\<close> (or the \<open>Inr\<close> side when a value is
  returned with it).
\<close>

type_synonym error = string
type_synonym connection = nat
type_synonym amqp_channel = nat

text \<open>\<^verbatim>\<open>amqp.Queue\<close>, as returned by QueueDeclarePassive.\<close>

record Queue =
  Name :: string
  Messages :: int
  Consumers :: int

text \<open>\<^verbatim>\<open>amqp.Delivery\<close>: the fields that Consume reads.\<close>

record 'v Delivery =
  d_Body :: "8 word list"
  d_RoutingKey :: string
  d_Headers :: "string \<rightharpoonup> 'v"
  DeliveryTag :: "64 word"

text \<open>
  \<^verbatim>\<open>amqp.Publishing\<close>: the fields that Publish sets; every other field keeps its zero
  value. \<^verbatim>\<open>amqp.Persistent\<close> is the library's constant 2 of type \<^verbatim>\<open>uint8\<close>.
\<close>

record 'v Publishing =
  p_Headers :: "string \<rightharpoonup> 'v"
  ContentType :: string
  ContentEncoding :: string
  p_Body :: "8 word list"
  DeliveryMode :: "8 word"

definition Persistent :: "8 word" where
  "Persistent = 2"

text \<open>The operands of a log call: strings (and errors) or integers.\<close>

datatype logarg = S string | I int

datatype 'v event =
    EvDial string
  | EvChannel connection
  | EvExchangeDeclarePassive amqp_channel string string bool bool bool bool
  | EvQueueDeclarePassive amqp_channel string bool bool bool bool
  | EvQueueBind amqp_channel string string string bool
  | EvConsume amqp_channel string string bool bool bool bool
  | EvPublish amqp_channel string string bool bool "'v Publishing"
  | EvAck amqp_channel "64 word" bool
  | EvSend "'v Message"
  | EvClose
  | EvLogPrintf string "logarg list"
  | EvLogPrint "logarg list"

record 'v amqp =
  amqp_Dial :: "'v event list \<Rightarrow> string \<Rightarrow> error + connection"
  Connection_Channel :: "'v event list \<Rightarrow> connection \<Rightarrow> error + amqp_channel"
  Channel_ExchangeDeclarePassive ::
    "'v event list \<Rightarrow> amqp_channel \<Rightarrow> string \<Rightarrow> string \<Rightarrow> bool \<Rightarrow> bool \<Rightarrow> bool \<Rightarrow> bool
       \<Rightarrow> error option"
  Channel_QueueDeclarePassive ::
    "'v event list \<Rightarrow> amqp_channel \<Rightarrow> string \<Rightarrow> bool \<Rightarrow> bool \<Rightarrow> bool \<Rightarrow> bool \<Rightarrow> error + Queue"
  Channel_QueueBind ::
    "'v event list \<Rightarrow> amqp_channel \<Rightarrow> string \<Rightarrow> string \<Rightarrow> string \<Rightarrow> bool \<Rightarrow> error option"
  Channel_Consume ::
    "'v event list \<Rightarrow> amqp_channel \<Rightarrow> string \<Rightarrow> string \<Rightarrow> bool \<Rightarrow> bool \<Rightarrow> bool \<Rightarrow> bool
       \<Rightarrow> error + 'v Delivery list"
  Channel_Publish ::
    "'v event list \<Rightarrow> amqp_channel \<Rightarrow> string \<Rightarrow> string \<Rightarrow> bool \<Rightarrow> bool \<Rightarrow> 'v Publishing
       \<Rightarrow> error option"
  Channel_Ack :: "'v event list \<Rightarrow> amqp_channel \<Rightarrow> 64 word \<Rightarrow> bool \<Rightarrow> error option"

text \<open>
  \<^verbatim>\<open>log.Fatalf(format, args...)\<close> prints the line and ends the process with status 1:
  the operation stops there with the value \<open>Inl (Fatal format args)\<close>.
\<close>

datatype fatal = Fatal string "logarg list"

subsection \<open>The session and its setup\<close>

text \<open>\<^verbatim>\<open>type RabbitMQ struct\<close>, field for field.\<close>

record RabbitMQ =
  conn :: connection
  channel :: amqp_channel
  exchange :: string
  contentType :: string
  contentEncoding :: string
  queue :: string
  tag :: string
  routingKey :: string
  prefetch :: int
  consume :: bool
  publish :: bool

text \<open>
  The body of \<^verbatim>\<open>if publish { ... }\<close> in NewRabbitMQ: the passive declaration of the
  exchange.
\<close>

definition declare_exchange ::
  "'v amqp \<Rightarrow> amqp_channel \<Rightarrow> string \<Rightarrow> 'v event list \<Rightarrow> 'v event list \<times> (fatal + unit)"
where
  "declare_exchange lib ch exchange' h =
     (let h1 = h @ [EvExchangeDeclarePassive ch exchange' ''topic'' True False False False]
      in case Channel_ExchangeDeclarePassive lib h ch exchange' ''topic'' True False False False of
           Some err \<Rightarrow> (h1, Inl (Fatal ''Exchange Declare: %s'' [S err]))
         | None \<Rightarrow> (h1, Inr ()))"

text \<open>
  The body of \<^verbatim>\<open>if consume { ... }\<close> in NewRabbitMQ: passive declaration of the queue,
  the check of its message count, the binding with the pattern \<^verbatim>\<open>#\<close>, the log line.
\<close>

definition declare_and_bind_queue ::
  "'v amqp \<Rightarrow> amqp_channel \<Rightarrow> string \<Rightarrow> string \<Rightarrow> 'v event list
     \<Rightarrow> 'v event list \<times> (fatal + unit)"
where
  "declare_and_bind_queue lib ch exchange' queue' h =
     (let h1 = h @ [EvQueueDeclarePassive ch queue' True False False False]
      in case Channel_QueueDeclarePassive lib h ch queue' True False False False of
           Inl err \<Rightarrow> (h1, Inl (Fatal ''Queue Declare: %s'' [S err]))
         | Inr q \<Rightarrow>
             if Messages q = 0
             then (h1, Inl (Fatal ''No messages in RabbitMQ Queue: %s'' [S (Name q)]))
             else
               (let h2 = h1 @ [EvQueueBind ch (Name q) ''#'' exchange' False]
                in case Channel_QueueBind lib h1 ch (Name q) ''#'' exchange' False of
                     Some err \<Rightarrow> (h2, Inl (Fatal ''Queue Bind: %s'' [S err]))
                   | None \<Rightarrow>
                       (h2 @ [EvLogPrintf
                                ''Bind to Exchange: %q and Queue: %q, Messaging waiting: %d''
                                [S exchange', S queue', I (Messages q)]],
                        Inr ())))"

text \<open>
  \<^verbatim>\<open>func NewRabbitMQ(amqpURI, exchange, queue, routingKey, tag string, prefetch int,
  consume, publish bool) *RabbitMQ\<close>. The parameters carry a prime, the plain names being
  the fields of the struct. The struct literal at the end names five fields; the other
  six keep the zero value of their type, which is written out. The goroutine started
  after the dial only waits for a close and a blocked notification and logs them; it
  runs beside the setup and is not part of this sequential model.
\<close>

definition NewRabbitMQ ::
  "'v amqp \<Rightarrow> string \<Rightarrow> string \<Rightarrow> string \<Rightarrow> string \<Rightarrow> string \<Rightarrow> int \<Rightarrow> bool \<Rightarrow> bool
     \<Rightarrow> 'v event list \<Rightarrow> 'v event list \<times> (fatal + RabbitMQ)"
where
  "NewRabbitMQ lib amqpURI exchange' queue' routingKey' tag' prefetch' consume' publish' h =
     (let h1 = h @ [EvDial amqpURI]
      in case amqp_Dial lib h amqpURI of
           Inl err \<Rightarrow> (h1, Inl (Fatal ''writer failed to connect to Rabbit: %s'' [S err]))
         | Inr conn' \<Rightarrow>
            (let h2 = h1 @ [EvChannel conn']
             in case Connection_Channel lib h1 conn' of
                  Inl err \<Rightarrow>
                    (h2, Inl (Fatal ''writer failed to get a channel from Rabbit: %s'' [S err]))
                | Inr channel' \<Rightarrow>
                   (case (if publish' then declare_exchange lib channel' exchange' h2
                          else (h2, Inr ())) of
                      (h3, Inl f) \<Rightarrow> (h3, Inl f)
                    | (h3, Inr _) \<Rightarrow>
                       (case (if consume'
                              then declare_and_bind_queue lib channel' exchange' queue' h3
                              else (h3, Inr ())) of
                          (h4, Inl f) \<Rightarrow> (h4, Inl f)
                        | (h4, Inr _) \<Rightarrow>
                           (h4 @ [EvLogPrint [S ''RabbitMQ connected: '', S amqpURI]],
                            Inr \<lparr>conn = conn', channel = channel', exchange = exchange',
                                 contentType = ''application/json'', contentEncoding = ''UTF-8'',
                                 queue = '''', tag = '''', routingKey = '''', prefetch = 0,
                                 consume = False, publish = False\<rparr>)))))"

subsection \<open>Publish\<close>

text \<open>The \<^verbatim>\<open>amqp.Publishing\<close> literal that Publish builds for a message.\<close>

definition publishing_of :: "RabbitMQ \<Rightarrow> 'v Message \<Rightarrow> 'v Publishing" where
  "publishing_of r doc =
     \<lparr>p_Headers = Headers doc, ContentType = contentType r,
      ContentEncoding = contentEncoding r, p_Body = Body doc, DeliveryMode = Persistent\<rparr>"

text \<open>
  \<^verbatim>\<open>func (r *RabbitMQ) Publish(in chan Message)\<close>. The argument \<open>docs\<close> is the sequence
  of messages that the channel \<^verbatim>\<open>in\<close> yields before it is closed. A publish error is
  fatal: the loop stops at that message.
\<close>

fun Publish ::
  "'v amqp \<Rightarrow> RabbitMQ \<Rightarrow> 'v Message list \<Rightarrow> 'v event list \<Rightarrow> 'v event list \<times> (fatal + unit)"
where
  "Publish lib r [] h = (h, Inr ())"
| "Publish lib r (doc # docs) h =
     (let h1 = h @ [EvPublish (channel r) (exchange r) (RoutingKey doc) False False
                      (publishing_of r doc)]
      in case Channel_Publish lib h (channel r) (exchange r) (RoutingKey doc) False False
                (publishing_of r doc) of
           Some err \<Rightarrow> (h1, Inl (Fatal ''writer failed to write document to rabbit: %s'' [S err]))
         | None \<Rightarrow> Publish lib r docs h1)"

subsection \<open>Consume\<close>

text \<open>The Message literal that Consume builds for a delivery.\<close>

definition message_of :: "'v Delivery \<Rightarrow> 'v Message" where
  "message_of d = \<lparr>Body = d_Body d, RoutingKey = d_RoutingKey d, Headers = d_Headers d\<rparr>"

text \<open>
  The loop \<^verbatim>\<open>for d := range deliveries { ... }\<close>. The argument is the sequence of
  deliveries that the subscription yields before the library closes it. The send
  \<^verbatim>\<open>out <- msg\<close> is taken to complete (a reader is draining \<^verbatim>\<open>out\<close>). The value that
  \<^verbatim>\<open>r.channel.Ack\<close> returns is computed and dropped, as in the source.
\<close>

fun consume_loop ::
  "'v amqp \<Rightarrow> RabbitMQ \<Rightarrow> 'v Delivery list \<Rightarrow> 'v event list \<Rightarrow> 'v event list"
where
  "consume_loop lib r [] h = h"
| "consume_loop lib r (d # deliveries) h =
     (let msg = message_of d;
          h1 = h @ [EvSend msg];
          _ = Channel_Ack lib h1 (channel r) (DeliveryTag d) False;
          h2 = h1 @ [EvAck (channel r) (DeliveryTag d) False]
      in consume_loop lib r deliveries h2)"

text \<open>\<^verbatim>\<open>func (r *RabbitMQ) Consume(out chan Message)\<close>.\<close>

definition Consume ::
  "'v amqp \<Rightarrow> RabbitMQ \<Rightarrow> 'v event list \<Rightarrow> 'v event list \<times> (fatal + unit)"
where
  "Consume lib r h =
     (let h1 = h @ [EvConsume (channel r) (queue r) (tag r) False False False False]
      in case Channel_Consume lib h (channel r) (queue r) (tag r) False False False False of
           Inl err \<Rightarrow> (h1, Inl (Fatal ''rabbit consumer failed %s'' [S err]))
         | Inr deliveries \<Rightarrow>
             (consume_loop lib r deliveries h1
                @ [EvLogPrint [S ''All messages consumed''], EvClose],
              Inr ()))"

subsection \<open>Reading a trace\<close>

text \<open>
  The events of one delivery, in the order the loop produces them, and the publish call
  of one message.
\<close>

definition delivery_events :: "RabbitMQ \<Rightarrow> 'v Delivery \<Rightarrow> 'v event list" where
  "delivery_events r d = [EvSend (message_of d), EvAck (channel r) (DeliveryTag d) False]"

definition publish_event :: "RabbitMQ \<Rightarrow> 'v Message \<Rightarrow> 'v event" where
  "publish_event r doc =
     EvPublish (channel r) (exchange r) (RoutingKey doc) False False (publishing_of r doc)"

fun is_publish :: "'v event \<Rightarrow> bool" where
  "is_publish (EvPublish _ _ _ _ _ _) = True"
| "is_publish _ = False"

fun is_bind :: "'v event \<Rightarrow> bool" where
  "is_bind (EvQueueBind _ _ _ _ _) = True"
| "is_bind _ = False"

fun is_log :: "'v event \<Rightarrow> bool" where
  "is_log (EvLogPrintf _ _) = True"
| "is_log (EvLogPrint _) = True"
| "is_log _ = False"

fun sent_of :: "'v event \<Rightarrow> 'v Message list" where
  "sent_of (EvSend m) = [m]"
| "sent_of _ = []"

fun ack_of :: "'v event \<Rightarrow> (64 word \<times> bool) list" where
  "ack_of (EvAck _ t multiple) = [(t, multiple)]"
| "ack_of _ = []"

definition sent :: "'v event list \<Rightarrow> 'v Message list" where
  "sent h = concat (map sent_of h)"

definition acks :: "'v event list \<Rightarrow> (64 word \<times> bool) list" where
  "acks h = concat (map ack_of h)"

subsection \<open>Concrete brokers and inputs\<close>

text \<open>
  A broker on which every call succeeds: the queue that is declared holds three messages
  and the subscription yields two deliveries before it is closed.
\<close>

definition delivery1 :: "string Delivery" where
  "delivery1 = \<lparr>d_Body = [], d_RoutingKey = ''orders.created'',
                d_Headers = [''source'' \<mapsto> ''api''], DeliveryTag = 1\<rparr>"

definition delivery2 :: "string Delivery" where
  "delivery2 = \<lparr>d_Body = [104, 105], d_RoutingKey = ''orders.paid'',
                d_Headers = Map.empty, DeliveryTag = 2\<rparr>"

definition broker_ok :: "string amqp" where
  "broker_ok =
     \<lparr>amqp_Dial = (\<lambda>h uri. Inr 1),
      Connection_Channel = (\<lambda>h c. Inr 1),
      Channel_ExchangeDeclarePassive = (\<lambda>h ch name kind durable autoDelete internal noWait. None),
      Channel_QueueDeclarePassive =
        (\<lambda>h ch name durable autoDelete exclusive noWait.
           Inr \<lparr>Name = name, Messages = 3, Consumers = 0\<rparr>),
      Channel_QueueBind = (\<lambda>h ch name key source noWait. None),
      Channel_Consume =
        (\<lambda>h ch name consumer noAck exclusive noLocal noWait. Inr [delivery1, delivery2]),
      Channel_Publish = (\<lambda>h ch ex key mandatory immediate msg. None),
      Channel_Ack = (\<lambda>h ch t multiple. None)\<rparr>"

text \<open>The same broker with an empty queue, with failing acknowledgements, with failing
  publishes.\<close>

definition broker_empty_queue :: "string amqp" where
  "broker_empty_queue =
     broker_ok\<lparr>Channel_QueueDeclarePassive :=
       (\<lambda>h ch name durable autoDelete exclusive noWait.
          Inr \<lparr>Name = name, Messages = 0, Consumers = 0\<rparr>)\<rparr>"

definition broker_ack_fails :: "string amqp" where
  "broker_ack_fails = broker_ok\<lparr>Channel_Ack := (\<lambda>h ch t multiple. Some ''channel closed'')\<rparr>"

definition broker_publish_fails :: "string amqp" where
  "broker_publish_fails =
     broker_ok\<lparr>Channel_Publish := (\<lambda>h ch ex key mandatory immediate msg. Some ''channel closed'')\<rparr>"

text \<open>A session as NewRabbitMQ builds it, and two messages.\<close>

definition session1 :: RabbitMQ where
  "session1 =
     \<lparr>conn = 1, channel = 1, exchange = ''events'',
      contentType = ''application/json'', contentEncoding = ''UTF-8'',
      queue = '''', tag = '''', routingKey = '''', prefetch = 0,
      consume = False, publish = False\<rparr>"

definition doc1 :: "string Message" where
  "doc1 = \<lparr>Body = [123, 125], RoutingKey = ''orders.created'', Headers = [''source'' \<mapsto> ''api'']\<rparr>"

definition doc2 :: "string Message" where
  "doc2 = \<lparr>Body = [], RoutingKey = ''orders.paid'', Headers = Map.empty\<rparr>"

section \<open>The message builder\<close>

lemma attrs_loop_headers:
  "fst (attrs_loop rk attrs (hs, key)) =
     (\<lambda>k. if k = ''amqp.routingKey'' then hs k
          else (case map_of (rev attrs) k of None \<Rightarrow> hs k | Some v \<Rightarrow> Some v))"
proof (induction attrs arbitrary: hs key)
  case Nil
  show ?case by (simp add: fun_eq_iff)
next
  case (Cons a attrs)
  obtain k v where a: "a = (k, v)" by (cases a)
  show ?case unfolding a
    by (auto simp: Cons.IH fun_eq_iff map_add_def split: option.splits)
qed

lemma map_of_rev_distinct:
  "distinct (map fst attrs) \<Longrightarrow> map_of (rev attrs) = map_of attrs"
  by (rule map_of_inject_set[THEN iffD2]) (simp_all add: rev_map[symmetric] del: rev_map)

lemma attrs_loop_key_absent:
  "''amqp.routingKey'' \<notin> fst ` set attrs \<Longrightarrow> snd (attrs_loop rk attrs (hs, key)) = key"
proof (induction attrs arbitrary: hs key)
  case Nil
  show ?case by simp
next
  case (Cons a attrs)
  obtain k v where a: "a = (k, v)" by (cases a)
  from Cons.prems have "k \<noteq> ''amqp.routingKey''" and "''amqp.routingKey'' \<notin> fst ` set attrs"
    unfolding a by auto
  then show ?case unfolding a by (simp add: Cons.IH)
qed

lemma attrs_loop_key_override:
  "rk \<noteq> '''' \<Longrightarrow> snd (attrs_loop rk attrs (hs, key)) = key
     \<or> snd (attrs_loop rk attrs (hs, key)) = rk"
proof (induction attrs arbitrary: hs key)
  case Nil
  show ?case by simp
next
  case (Cons a attrs)
  obtain k v where a: "a = (k, v)" by (cases a)
  show ?case
  proof (cases "k = ''amqp.routingKey''")
    case True
    with Cons.prems Cons.IH[of hs rk] show ?thesis unfolding a by auto
  next
    case False
    have "snd (attrs_loop rk attrs (hs(k \<mapsto> v), key)) = key
        \<or> snd (attrs_loop rk attrs (hs(k \<mapsto> v), key)) = rk"
      by (rule Cons.IH[OF Cons.prems])
    with False show ?thesis unfolding a by simp
  qed
qed

lemma attrs_loop_key_present_override:
  "rk \<noteq> '''' \<Longrightarrow> ''amqp.routingKey'' \<in> fst ` set attrs
     \<Longrightarrow> snd (attrs_loop rk attrs (hs, key)) = rk"
proof (induction attrs arbitrary: hs key)
  case Nil
  then show ?case by simp
next
  case (Cons a attrs)
  obtain k v where a: "a = (k, v)" by (cases a)
  show ?case
  proof (cases "k = ''amqp.routingKey''")
    case True
    with Cons.prems attrs_loop_key_override[of rk attrs hs rk] show ?thesis
      unfolding a by auto
  next
    case False
    with Cons.prems have "''amqp.routingKey'' \<in> fst ` set attrs" unfolding a by auto
    with Cons.prems(1) False show ?thesis unfolding a by (simp add: Cons.IH)
  qed
qed

lemma attrs_loop_key_present:
  "distinct (map fst attrs) \<Longrightarrow> (''amqp.routingKey'', v) \<in> set attrs
     \<Longrightarrow> snd (attrs_loop '''' attrs (hs, key)) = v"
proof (induction attrs arbitrary: hs key)
  case Nil
  then show ?case by simp
next
  case (Cons a attrs)
  obtain k w where a: "a = (k, w)" by (cases a)
  show ?case
  proof (cases "k = ''amqp.routingKey''")
    case True
    with Cons.prems have absent: "''amqp.routingKey'' \<notin> fst ` set attrs"
      unfolding a by simp
    with Cons.prems True have "w = v" unfolding a by force
    with True absent show ?thesis unfolding a by (simp add: attrs_loop_key_absent)
  next
    case False
    with Cons.prems have "distinct (map fst attrs)" "(''amqp.routingKey'', v) \<in> set attrs"
      unfolding a by auto
    with False show ?thesis unfolding a by (simp add: Cons.IH)
  qed
qed

lemma NewMessageFromAttrs_sel:
  "RoutingKey (NewMessageFromAttrs rk bytes attrs) = snd (attrs_loop rk attrs (Map.empty, ''''))"
  "Headers (NewMessageFromAttrs rk bytes attrs) = fst (attrs_loop rk attrs (Map.empty, ''''))"
  "Body (NewMessageFromAttrs rk bytes attrs) = bytes"
  by (simp_all add: NewMessageFromAttrs_def split: prod.splits)

text \<open>
  Claim C2, as amended. When a non-empty routing-key override is configured and the
  attribute mapping contains the designation \<^verbatim>\<open>amqp.routingKey\<close>, the message that
  NewMessageFromAttrs builds has the override as its RoutingKey, whatever value the
  designation carries. (The override is applied inside the case of the designation, so
  a mapping without it is not covered.)
\<close>

theorem C2_override_when_designated:
  "rk \<noteq> '''' \<Longrightarrow> ''amqp.routingKey'' \<in> fst ` set attrs
     \<Longrightarrow> RoutingKey (NewMessageFromAttrs rk bytes attrs) = rk"
  by (simp add: NewMessageFromAttrs_sel attrs_loop_key_present_override)

theorem C2_override_when_designated_witness:
  "''cli.key'' \<noteq> '''' \<and>
   ''amqp.routingKey'' \<in> fst ` set [(''source'', ''api''), (''amqp.routingKey'', ''orders.created'')] \<and>
   RoutingKey (NewMessageFromAttrs ''cli.key'' [1, 2]
                 [(''source'', ''api''), (''amqp.routingKey'', ''orders.created'')]) = ''cli.key''"
  using C2_override_when_designated
          [of "''cli.key''" "[(''source'', ''api''), (''amqp.routingKey'', ''orders.created'')]"
              "[1, 2]"]
  by simp

text \<open>
  Claim C2 as it is stated fails: with the override \<^verbatim>\<open>cli.key\<close> configured and a mapping
  that has no designation, the RoutingKey is the empty string, not the override.
\<close>

theorem C2_override_without_designation_counterexample:
  "RoutingKey (NewMessageFromAttrs ''cli.key'' [1, 2] [(''source'', ''api'')]) = '''' \<and>
   RoutingKey (NewMessageFromAttrs ''cli.key'' [1, 2] [(''source'', ''api'')]) \<noteq> ''cli.key''"
  by (simp add: NewMessageFromAttrs_def)

text \<open>
  Claim C5. For every attribute mapping (keys unique, as in a Go map) that contains the
  designation \<^verbatim>\<open>amqp.routingKey\<close> with value \<open>v\<close>, when no override is configured (the
  override is empty), the message built has RoutingKey \<open>v\<close> and its Headers do not
  contain the designation key.
\<close>

theorem C5_designation_becomes_routing_key:
  "distinct (map fst attrs) \<Longrightarrow> (''amqp.routingKey'', v) \<in> set attrs
     \<Longrightarrow> RoutingKey (NewMessageFromAttrs '''' bytes attrs) = v
       \<and> Headers (NewMessageFromAttrs '''' bytes attrs) ''amqp.routingKey'' = None"
  by (simp add: NewMessageFromAttrs_sel attrs_loop_key_present attrs_loop_headers)

theorem C5_designation_becomes_routing_key_witness:
  "distinct (map fst [(''source'', ''api''), (''amqp.routingKey'', ''orders.created'')]) \<and>
   (''amqp.routingKey'', ''orders.created'')
      \<in> set [(''source'', ''api''), (''amqp.routingKey'', ''orders.created'')] \<and>
   RoutingKey (NewMessageFromAttrs '''' [1, 2]
                 [(''source'', ''api''), (''amqp.routingKey'', ''orders.created'')])
     = ''orders.created'' \<and>
   Headers (NewMessageFromAttrs '''' [1, 2]
              [(''source'', ''api''), (''amqp.routingKey'', ''orders.created'')])
     ''amqp.routingKey'' = None"
  using C5_designation_becomes_routing_key
          [of "[(''source'', ''api''), (''amqp.routingKey'', ''orders.created'')]"
              "''orders.created''" "[1, 2]"]
  by simp

text \<open>
  Claim C6. For every attribute mapping (keys unique, as in a Go map) and every override:
  the Headers of the message built hold \<open>v\<close> under \<open>k\<close> exactly when the mapping holds
  \<open>v\<close> under \<open>k\<close> and \<open>k\<close> is not the designation \<^verbatim>\<open>amqp.routingKey\<close>. So every other
  attribute is there under its key with its value, and there is no other entry.
\<close>

theorem C6_headers_are_other_attributes:
  "distinct (map fst attrs)
     \<Longrightarrow> (Headers (NewMessageFromAttrs rk bytes attrs) k = Some v)
         = ((k, v) \<in> set attrs \<and> k \<noteq> ''amqp.routingKey'')"
proof -
  assume keys: "distinct (map fst attrs)"
  have "Headers (NewMessageFromAttrs rk bytes attrs) k
          = (if k = ''amqp.routingKey'' then None else map_of attrs k)"
    by (simp add: NewMessageFromAttrs_sel attrs_loop_headers map_of_rev_distinct[OF keys]
             split: option.splits)
  with keys show ?thesis by simp
qed

theorem C6_headers_are_other_attributes_witness:
  "distinct (map fst [(''source'', ''api''), (''amqp.routingKey'', ''orders.created'')]) \<and>
   (Headers (NewMessageFromAttrs ''cli.key'' [1, 2]
               [(''source'', ''api''), (''amqp.routingKey'', ''orders.created'')])
      ''source'' = Some ''api'')
     = ((''source'', ''api'')
          \<in> set [(''source'', ''api''), (''amqp.routingKey'', ''orders.created'')]
        \<and> ''source'' \<noteq> ''amqp.routingKey'')"
  using C6_headers_are_other_attributes
          [of "[(''source'', ''api''), (''amqp.routingKey'', ''orders.created'')]"
              "''cli.key''" "[1, 2]" "''source''" "''api''"]
  by simp

text \<open>
  Claim C7. For every attribute mapping that does not contain the designation
  \<^verbatim>\<open>amqp.routingKey\<close>, when no override is configured, the message built has the empty
  string as its RoutingKey.
\<close>

theorem C7_no_designation_empty_routing_key:
  "''amqp.routingKey'' \<notin> fst ` set attrs
     \<Longrightarrow> RoutingKey (NewMessageFromAttrs '''' bytes attrs) = ''''"
  by (simp add: NewMessageFromAttrs_sel attrs_loop_key_absent)

theorem C7_no_designation_empty_routing_key_witness:
  "''amqp.routingKey'' \<notin> fst ` set [(''source'', ''api''), (''kind'', ''order'')] \<and>
   RoutingKey (NewMessageFromAttrs '''' [1, 2] [(''source'', ''api''), (''kind'', ''order'')])
     = ''''"
  using C7_no_designation_empty_routing_key
          [of "[(''source'', ''api''), (''kind'', ''order'')]" "[1, 2]"]
  by simp

section \<open>The Consume and Publish loops\<close>

lemma consume_loop_trace:
  "consume_loop lib r ds h = h @ concat (map (delivery_events r) ds)"
  by (induction ds arbitrary: h) (simp_all add: delivery_events_def)

lemma consume_loop_ack_irrelevant:
  "consume_loop (lib\<lparr>Channel_Ack := a\<rparr>) r ds h = consume_loop lib r ds h"
  by (simp add: consume_loop_trace)

lemma sent_append: "sent (xs @ ys) = sent xs @ sent ys"
  by (simp add: sent_def)

lemma acks_append: "acks (xs @ ys) = acks xs @ acks ys"
  by (simp add: acks_def)

lemma sent_deliveries: "sent (concat (map (delivery_events r) ds)) = map message_of ds"
  by (induction ds) (simp_all add: sent_def delivery_events_def)

lemma acks_deliveries:
  "acks (concat (map (delivery_events r) ds)) = map (\<lambda>d. (DeliveryTag d, False)) ds"
  by (induction ds) (simp_all add: acks_def delivery_events_def)

lemma close_not_in_deliveries: "EvClose \<notin> set (concat (map (delivery_events r) ds))"
  by (induction ds) (simp_all add: delivery_events_def)

lemma no_log_in_deliveries: "filter is_log (concat (map (delivery_events r) ds)) = []"
  by (induction ds) (simp_all add: delivery_events_def)

lemma Consume_subscribed:
  "Channel_Consume lib h (channel r) (queue r) (tag r) False False False False = Inr ds
     \<Longrightarrow> Consume lib r h =
           (h @ [EvConsume (channel r) (queue r) (tag r) False False False False]
              @ concat (map (delivery_events r) ds)
              @ [EvLogPrint [S ''All messages consumed''], EvClose],
            Inr ())"
  by (simp add: Consume_def consume_loop_trace)

lemma Publish_all_accepted:
  "(\<And>pre doc post. docs = pre @ doc # post \<Longrightarrow>
       Channel_Publish lib (h @ map (publish_event r) pre) (channel r) (exchange r)
         (RoutingKey doc) False False (publishing_of r doc) = None)
     \<Longrightarrow> Publish lib r docs h = (h @ map (publish_event r) docs, Inr ())"
proof (induction docs arbitrary: h)
  case Nil
  show ?case by simp
next
  case (Cons doc docs)
  have first: "Channel_Publish lib h (channel r) (exchange r) (RoutingKey doc) False False
                 (publishing_of r doc) = None"
    using Cons.prems[of "[]" doc docs] by simp
  have rest: "Publish lib r docs (h @ [publish_event r doc])
                = ((h @ [publish_event r doc]) @ map (publish_event r) docs, Inr ())"
  proof (rule Cons.IH)
    fix pre d post
    assume "docs = pre @ d # post"
    then have "doc # docs = (doc # pre) @ d # post" by simp
    from Cons.prems[OF this]
    show "Channel_Publish lib ((h @ [publish_event r doc]) @ map (publish_event r) pre)
            (channel r) (exchange r) (RoutingKey d) False False (publishing_of r d) = None"
      by simp
  qed
  from first rest show ?case by (simp add: publish_event_def)
qed

lemma sent_simps:
  "sent [] = []"
  "sent (e # es) = sent_of e @ sent es"
  by (simp_all add: sent_def)

lemma acks_simps:
  "acks [] = []"
  "acks (e # es) = ack_of e @ acks es"
  by (simp_all add: acks_def)

lemma Consume_ack_irrelevant:
  "Consume (lib\<lparr>Channel_Ack := a\<rparr>) r h = Consume lib r h"
  by (simp add: Consume_def Let_def consume_loop_ack_irrelevant split: sum.splits)

text \<open>
  Claim C3. When the subscription opens and yields the deliveries \<open>ds\<close> before it is
  closed, Consume adds to the trace, after the subscription call, for each delivery in
  order the send of its Message on the output channel followed at once by one
  acknowledgement of its own tag with \<^verbatim>\<open>multiple = false\<close>. So the output channel
  receives exactly the Messages of \<open>ds\<close>, as many and in the same order, and the
  acknowledgements are exactly one per delivery, each after the send of its Message.
\<close>

theorem C3_consume_sends_then_acks_each_delivery:
  assumes "Channel_Consume lib h (channel r) (queue r) (tag r) False False False False = Inr ds"
  shows "fst (Consume lib r h) =
           h @ [EvConsume (channel r) (queue r) (tag r) False False False False]
             @ concat (map (\<lambda>d. [EvSend (message_of d),
                                   EvAck (channel r) (DeliveryTag d) False]) ds)
             @ [EvLogPrint [S ''All messages consumed''], EvClose]
       \<and> sent (fst (Consume lib r h)) = sent h @ map message_of ds
       \<and> length (map message_of ds) = length ds
       \<and> acks (fst (Consume lib r h)) = acks h @ map (\<lambda>d. (DeliveryTag d, False)) ds"
proof -
  have ev: "delivery_events r = (\<lambda>d. [EvSend (message_of d),
                                        EvAck (channel r) (DeliveryTag d) False])"
    by (simp add: fun_eq_iff delivery_events_def)
  have "fst (Consume lib r h) =
          h @ [EvConsume (channel r) (queue r) (tag r) False False False False]
            @ concat (map (delivery_events r) ds)
            @ [EvLogPrint [S ''All messages consumed''], EvClose]"
    by (simp add: Consume_subscribed[OF assms])
  moreover from this have "sent (fst (Consume lib r h)) = sent h @ map message_of ds"
    by (simp add: sent_append sent_deliveries sent_simps)
  moreover from calculation(1)
  have "acks (fst (Consume lib r h)) = acks h @ map (\<lambda>d. (DeliveryTag d, False)) ds"
    by (simp add: acks_append acks_deliveries acks_simps)
  ultimately show ?thesis by (simp add: ev)
qed

theorem C3_consume_sends_then_acks_each_delivery_witness:
  "Channel_Consume broker_ok [] (channel session1) (queue session1) (tag session1)
     False False False False = Inr [delivery1, delivery2]
   \<and> fst (Consume broker_ok session1 []) =
       [EvConsume 1 '''' '''' False False False False,
        EvSend (message_of delivery1), EvAck 1 1 False,
        EvSend (message_of delivery2), EvAck 1 2 False,
        EvLogPrint [S ''All messages consumed''], EvClose]
   \<and> sent (fst (Consume broker_ok session1 [])) = [message_of delivery1, message_of delivery2]
   \<and> acks (fst (Consume broker_ok session1 [])) = [(1, False), (2, False)]"
proof -
  have sub: "Channel_Consume broker_ok [] (channel session1) (queue session1) (tag session1)
               False False False False = Inr [delivery1, delivery2]"
    by (simp add: broker_ok_def)
  have tags: "DeliveryTag delivery1 = 1" "DeliveryTag delivery2 = 2"
    by (simp_all add: delivery1_def delivery2_def)
  have sess: "channel session1 = 1" "queue session1 = ''''" "tag session1 = ''''"
    by (simp_all add: session1_def)
  from C3_consume_sends_then_acks_each_delivery[OF sub] sub show ?thesis
    by (simp add: tags sess sent_simps acks_simps)
qed

text \<open>
  Claim C9. When the subscription opens and is closed after the deliveries \<open>ds\<close>, the
  run of Consume ends (it returns, without a fatal exit), the output channel is closed
  once by it, the closing is the last thing it does, and everything before the closing
  includes the sends of the Messages of all deliveries.
\<close>

theorem C9_consume_ends_and_closes_output_once:
  assumes "Channel_Consume lib h (channel r) (queue r) (tag r) False False False False = Inr ds"
  shows "snd (Consume lib r h) = Inr ()
       \<and> count_list (fst (Consume lib r h)) EvClose = count_list h EvClose + 1
       \<and> last (fst (Consume lib r h)) = EvClose
       \<and> sent (butlast (fst (Consume lib r h))) = sent h @ map message_of ds"
proof -
  let ?pre = "h @ [EvConsume (channel r) (queue r) (tag r) False False False False]
                @ concat (map (delivery_events r) ds)
                @ [EvLogPrint [S ''All messages consumed'']]"
  have run: "Consume lib r h = (?pre @ [EvClose], Inr ())"
    by (simp add: Consume_subscribed[OF assms])
  have "count_list (concat (map (delivery_events r) ds)) EvClose = 0"
    using close_not_in_deliveries[of r ds] by (simp add: count_list_0_iff)
  then have "count_list (?pre @ [EvClose]) EvClose = count_list h EvClose + 1"
    by simp
  moreover have "sent ?pre = sent h @ map message_of ds"
    by (simp add: sent_append sent_deliveries sent_simps)
  ultimately show ?thesis
    unfolding run fst_conv snd_conv butlast_snoc last_snoc by simp
qed

theorem C9_consume_ends_and_closes_output_once_witness:
  "Channel_Consume broker_ok [] (channel session1) (queue session1) (tag session1)
     False False False False = Inr [delivery1, delivery2]
   \<and> snd (Consume broker_ok session1 []) = Inr ()
   \<and> count_list (fst (Consume broker_ok session1 [])) EvClose = 1
   \<and> last (fst (Consume broker_ok session1 [])) = EvClose
   \<and> sent (butlast (fst (Consume broker_ok session1 [])))
       = [message_of delivery1, message_of delivery2]"
proof -
  have sub: "Channel_Consume broker_ok [] (channel session1) (queue session1) (tag session1)
               False False False False = Inr [delivery1, delivery2]"
    by (simp add: broker_ok_def)
  from C9_consume_ends_and_closes_output_once[OF sub] sub show ?thesis
    by (simp add: sent_simps)
qed

text \<open>
  Claim C10. The error that an acknowledgement returns is discarded. Whatever the
  library answers to the acknowledgements (\<open>a\<close>), the run of Consume is the one of the
  same library with any other answers; and when the subscription opens with the
  deliveries \<open>ds\<close>, Consume returns without a fatal exit, every delivery is sent and
  acknowledged in order, and the only line logged is the final one.
\<close>

theorem C10_ack_errors_are_discarded:
  "Consume (lib\<lparr>Channel_Ack := a\<rparr>) r h = Consume lib r h
   \<and> (Channel_Consume lib h (channel r) (queue r) (tag r) False False False False = Inr ds
        \<longrightarrow> Consume (lib\<lparr>Channel_Ack := a\<rparr>) r h =
              (h @ [EvConsume (channel r) (queue r) (tag r) False False False False]
                 @ concat (map (\<lambda>d. [EvSend (message_of d),
                                       EvAck (channel r) (DeliveryTag d) False]) ds)
                 @ [EvLogPrint [S ''All messages consumed''], EvClose],
               Inr ())
          \<and> filter is_log (drop (length h) (fst (Consume (lib\<lparr>Channel_Ack := a\<rparr>) r h)))
              = [EvLogPrint [S ''All messages consumed'']])"
proof -
  have ev: "delivery_events r = (\<lambda>d. [EvSend (message_of d),
                                        EvAck (channel r) (DeliveryTag d) False])"
    by (simp add: fun_eq_iff delivery_events_def)
  have same: "Consume (lib\<lparr>Channel_Ack := a\<rparr>) r h = Consume lib r h"
    by (rule Consume_ack_irrelevant)
  have "filter is_log (drop (length h) (fst (Consume lib r h)))
          = [EvLogPrint [S ''All messages consumed'']]"
    and "Consume lib r h =
           (h @ [EvConsume (channel r) (queue r) (tag r) False False False False]
              @ concat (map (delivery_events r) ds)
              @ [EvLogPrint [S ''All messages consumed''], EvClose],
            Inr ())"
    if "Channel_Consume lib h (channel r) (queue r) (tag r) False False False False = Inr ds"
    by (simp_all add: Consume_subscribed[OF that] no_log_in_deliveries)
  with same show ?thesis by (simp add: ev)
qed

theorem C10_ack_errors_are_discarded_witness:
  "Channel_Consume broker_ok [] (channel session1) (queue session1) (tag session1)
     False False False False = Inr [delivery1, delivery2]
   \<and> Channel_Ack broker_ack_fails [EvSend (message_of delivery1)] 1 1 False
       = Some ''channel closed''
   \<and> Consume broker_ack_fails session1 [] =
       ([EvConsume 1 '''' '''' False False False False,
         EvSend (message_of delivery1), EvAck 1 1 False,
         EvSend (message_of delivery2), EvAck 1 2 False,
         EvLogPrint [S ''All messages consumed''], EvClose],
        Inr ())"
proof -
  have sub: "Channel_Consume broker_ok [] (channel session1) (queue session1) (tag session1)
               False False False False = Inr [delivery1, delivery2]"
    by (simp add: broker_ok_def)
  have tags: "DeliveryTag delivery1 = 1" "DeliveryTag delivery2 = 2"
    by (simp_all add: delivery1_def delivery2_def)
  have sess: "channel session1 = 1" "queue session1 = ''''" "tag session1 = ''''"
    by (simp_all add: session1_def)
  have fails: "Channel_Ack broker_ack_fails [EvSend (message_of delivery1)] 1 1 False
                 = Some ''channel closed''"
    by (simp add: broker_ack_fails_def)
  have b: "broker_ack_fails = broker_ok\<lparr>Channel_Ack := \<lambda>h ch t multiple. Some ''channel closed''\<rparr>"
    by (simp add: broker_ack_fails_def)
  note run = C10_ack_errors_are_discarded
         [where lib = broker_ok and a = "\<lambda>h ch t multiple. Some ''channel closed''"
            and r = session1 and h = "[]" and ds = "[delivery1, delivery2]", folded b]
  from run[THEN conjunct2, THEN mp, OF sub, THEN conjunct1] sub fails
  show ?thesis by (simp add: tags sess)
qed

text \<open>
  Claim C4, as amended. For every sequence \<open>docs\<close> of Messages that the input channel
  yields, when no publish call of the run returns an error, Publish makes exactly one
  publish call per Message, in input order, and returns. Each call goes to the session's
  exchange with that Message's own RoutingKey, \<^verbatim>\<open>mandatory = false\<close>,
  \<^verbatim>\<open>immediate = false\<close>, and a Publishing that carries that Message's Headers and Body,
  the session's content type and content encoding, and the persistent delivery mode.
\<close>

theorem C4_publish_one_call_per_message:
  assumes "\<forall>pre doc post. docs = pre @ doc # post \<longrightarrow>
             Channel_Publish lib (h @ map (publish_event r) pre) (channel r) (exchange r)
               (RoutingKey doc) False False (publishing_of r doc) = None"
  shows "Publish lib r docs h =
           (h @ map (\<lambda>doc. EvPublish (channel r) (exchange r) (RoutingKey doc) False False
                              \<lparr>p_Headers = Headers doc, ContentType = contentType r,
                               ContentEncoding = contentEncoding r, p_Body = Body doc,
                               DeliveryMode = 2\<rparr>) docs,
            Inr ())"
proof -
  have ev: "publish_event r =
              (\<lambda>doc. EvPublish (channel r) (exchange r) (RoutingKey doc) False False
                        \<lparr>p_Headers = Headers doc, ContentType = contentType r,
                         ContentEncoding = contentEncoding r, p_Body = Body doc,
                         DeliveryMode = 2\<rparr>)"
    by (simp add: fun_eq_iff publish_event_def publishing_of_def Persistent_def)
  have "Publish lib r docs h = (h @ map (publish_event r) docs, Inr ())"
    using assms by (intro Publish_all_accepted) blast
  then show ?thesis by (simp only: ev)
qed

theorem C4_publish_one_call_per_message_witness:
  "Channel_Publish broker_ok [] (channel session1) (exchange session1) (RoutingKey doc1)
     False False (publishing_of session1 doc1) = None
   \<and> Channel_Publish broker_ok [publish_event session1 doc1] (channel session1)
       (exchange session1) (RoutingKey doc2) False False (publishing_of session1 doc2) = None
   \<and> Publish broker_ok session1 [doc1, doc2] [] =
       ([EvPublish 1 ''events'' ''orders.created'' False False
           \<lparr>p_Headers = [''source'' \<mapsto> ''api''], ContentType = ''application/json'',
            ContentEncoding = ''UTF-8'', p_Body = [123, 125], DeliveryMode = 2\<rparr>,
         EvPublish 1 ''events'' ''orders.paid'' False False
           \<lparr>p_Headers = Map.empty, ContentType = ''application/json'',
            ContentEncoding = ''UTF-8'', p_Body = [], DeliveryMode = 2\<rparr>],
        Inr ())"
proof -
  have ok: "\<forall>pre doc post. [doc1, doc2] = pre @ doc # post \<longrightarrow>
      Channel_Publish broker_ok ([] @ map (publish_event session1) pre) (channel session1)
        (exchange session1) (RoutingKey doc) False False (publishing_of session1 doc) = None"
    by (simp add: broker_ok_def)
  have calls: "\<And>h doc. Channel_Publish broker_ok h (channel session1) (exchange session1)
                 (RoutingKey doc) False False (publishing_of session1 doc) = None"
    by (simp add: broker_ok_def)
  note run = C4_publish_one_call_per_message[OF ok]
  show ?thesis unfolding run
    by (simp add: calls) (simp add: session1_def doc1_def doc2_def)
qed

text \<open>
  Claim C4 as it is stated fails: on a broker that refuses the publish, two Messages fed
  to Publish give one publish call, after which the process ends on the fatal log line.
\<close>

theorem C4_publish_failure_counterexample:
  "fst (Publish broker_publish_fails session1 [doc1, doc2] []) = [publish_event session1 doc1]
   \<and> snd (Publish broker_publish_fails session1 [doc1, doc2] [])
       = Inl (Fatal ''writer failed to write document to rabbit: %s'' [S ''channel closed''])
   \<and> length (filter is_publish (fst (Publish broker_publish_fails session1 [doc1, doc2] [])))
       \<noteq> length [doc1, doc2]"
  by (simp add: broker_publish_fails_def publish_event_def)

section \<open>The setup\<close>

text \<open>
  Claim C8. Setup with consume enabled: when the dial, the opening of the channel and
  (with publish enabled) the declaration of the exchange succeed and the passive
  declaration of the queue reports zero messages, NewRabbitMQ ends on the fatal line
  \<^verbatim>\<open>No messages in RabbitMQ Queue\<close> right after the declaration of the queue. No
  session is returned, and the setup has made no call to bind the queue.
\<close>

theorem C8_empty_queue_is_fatal_before_bind:
  assumes "amqp_Dial lib h amqpURI = Inr c"
    and "Connection_Channel lib (h @ [EvDial amqpURI]) c = Inr ch"
    and "publish' \<longrightarrow>
           Channel_ExchangeDeclarePassive lib (h @ [EvDial amqpURI, EvChannel c]) ch exchange'
             ''topic'' True False False False = None"
    and "hq = h @ [EvDial amqpURI, EvChannel c]
                @ (if publish'
                   then [EvExchangeDeclarePassive ch exchange' ''topic'' True False False False]
                   else [])"
    and "Channel_QueueDeclarePassive lib hq ch queue' True False False False = Inr q"
    and "Messages q = 0"
  shows "NewRabbitMQ lib amqpURI exchange' queue' rk tag' prefetch' True publish' h =
           (hq @ [EvQueueDeclarePassive ch queue' True False False False],
            Inl (Fatal ''No messages in RabbitMQ Queue: %s'' [S (Name q)]))
       \<and> filter is_bind (fst (NewRabbitMQ lib amqpURI exchange' queue' rk tag' prefetch'
                                  True publish' h))
           = filter is_bind h"
proof (cases publish')
  case True
  with assms show ?thesis
    by (simp add: NewRabbitMQ_def declare_exchange_def declare_and_bind_queue_def)
next
  case False
  with assms show ?thesis
    by (simp add: NewRabbitMQ_def declare_and_bind_queue_def)
qed

theorem C8_empty_queue_is_fatal_before_bind_witness:
  "amqp_Dial broker_empty_queue [] ''amqp://localhost'' = Inr 1
   \<and> Connection_Channel broker_empty_queue [EvDial ''amqp://localhost''] 1 = Inr 1
   \<and> Channel_ExchangeDeclarePassive broker_empty_queue
        [EvDial ''amqp://localhost'', EvChannel 1] 1 ''events'' ''topic''
        True False False False = None
   \<and> Channel_QueueDeclarePassive broker_empty_queue
        [EvDial ''amqp://localhost'', EvChannel 1,
         EvExchangeDeclarePassive 1 ''events'' ''topic'' True False False False]
        1 ''orders'' True False False False
        = Inr \<lparr>Name = ''orders'', Messages = 0, Consumers = 0\<rparr>
   \<and> NewRabbitMQ broker_empty_queue ''amqp://localhost'' ''events'' ''orders'' ''''
        ''worker-1'' 10 True True [] =
        ([EvDial ''amqp://localhost'', EvChannel 1,
          EvExchangeDeclarePassive 1 ''events'' ''topic'' True False False False,
          EvQueueDeclarePassive 1 ''orders'' True False False False],
         Inl (Fatal ''No messages in RabbitMQ Queue: %s'' [S ''orders'']))"
proof -
  have dial: "amqp_Dial broker_empty_queue [] ''amqp://localhost'' = Inr 1"
    and chan: "Connection_Channel broker_empty_queue ([] @ [EvDial ''amqp://localhost'']) 1
                 = Inr 1"
    and exch: "True \<longrightarrow> Channel_ExchangeDeclarePassive broker_empty_queue
                 ([] @ [EvDial ''amqp://localhost'', EvChannel 1]) 1 ''events'' ''topic''
                 True False False False = None"
    by (simp_all add: broker_empty_queue_def broker_ok_def)
  have hq: "[EvDial ''amqp://localhost'', EvChannel 1,
             EvExchangeDeclarePassive 1 ''events'' ''topic'' True False False False]
            = [] @ [EvDial ''amqp://localhost'', EvChannel 1]
                @ (if True
                   then [EvExchangeDeclarePassive 1 ''events'' ''topic'' True False False False]
                   else [])"
    by simp
  have decl: "Channel_QueueDeclarePassive broker_empty_queue
        [EvDial ''amqp://localhost'', EvChannel 1,
         EvExchangeDeclarePassive 1 ''events'' ''topic'' True False False False]
        1 ''orders'' True False False False
        = Inr \<lparr>Name = ''orders'', Messages = 0, Consumers = 0\<rparr>"
    by (simp add: broker_empty_queue_def broker_ok_def)
  have zero: "Messages \<lparr>Name = ''orders'', Messages = 0, Consumers = 0\<rparr> = 0"
    by simp
  from C8_empty_queue_is_fatal_before_bind[OF dial chan exch hq decl zero,
         of "''''" "''worker-1''" 10]
       dial chan exch decl
  show ?thesis by simp
qed

text \<open>
  Whatever queue name and consumer tag the setup is given, a session that it returns has
  the empty string in both fields, and Consume on it subscribes with these.
\<close>

lemma NewRabbitMQ_leaves_queue_and_tag_empty:
  "NewRabbitMQ lib amqpURI exchange' queue' rk tag' prefetch' consume' publish' h = (h', Inr r)
     \<Longrightarrow> queue r = '''' \<and> tag r = ''''"
  by (auto simp: NewRabbitMQ_def Let_def split: sum.splits prod.splits if_splits)

lemma Consume_first_call:
  "\<exists>rest. fst (Consume lib r h)
            = h @ EvConsume (channel r) (queue r) (tag r) False False False False # rest"
  by (simp add: Consume_def Let_def consume_loop_trace split: sum.splits)

text \<open>
  Claim C1 at a concrete input. Setup is called with the queue \<^verbatim>\<open>orders\<close> and the
  consumer tag \<^verbatim>\<open>worker-1\<close> on a broker where every call succeeds. The queue that is
  declared and bound is \<^verbatim>\<open>orders\<close>, but the session returned has the empty string in
  its fields \<open>queue\<close> and \<open>tag\<close>, and Consume on that session opens its subscription
  with the empty queue name and the empty consumer tag (manual acknowledgement,
  non-exclusive, no local suppression).
\<close>

theorem C1_consume_subscribes_with_empty_queue_and_tag:
  "NewRabbitMQ broker_ok ''amqp://localhost'' ''events'' ''orders'' '''' ''worker-1'' 10
     True False [] =
     ([EvDial ''amqp://localhost'', EvChannel 1,
       EvQueueDeclarePassive 1 ''orders'' True False False False,
       EvQueueBind 1 ''orders'' ''#'' ''events'' False,
       EvLogPrintf ''Bind to Exchange: %q and Queue: %q, Messaging waiting: %d''
         [S ''events'', S ''orders'', I 3],
       EvLogPrint [S ''RabbitMQ connected: '', S ''amqp://localhost'']],
      Inr session1)
   \<and> queue session1 = '''' \<and> tag session1 = ''''
   \<and> hd (fst (Consume broker_ok session1 []))
       = EvConsume 1 '''' '''' False False False False
   \<and> hd (fst (Consume broker_ok session1 []))
       \<noteq> EvConsume 1 ''orders'' ''worker-1'' False False False False"
  by (simp add: NewRabbitMQ_def declare_and_bind_queue_def Consume_def broker_ok_def
                session1_def)

end
